theory Spec2Isabelle
  imports Main "HOL-Library.Sublist"
begin

section \<open>Data model of build/server.js\<close>

text \<open>
  JavaScript strings are modelled as \<^typ>\<open>string\<close>: one list element stands for one
  code unit, which is what \<^verbatim>\<open>length\<close>, \<^verbatim>\<open>substring\<close> and the schema's
  \<^verbatim>\<open>min\<close> count.

  The key handed to \<^verbatim>\<open>getConversationState\<close> is a string on every path but one:
  the resource callback reads element 0 of an array, which is \<^verbatim>\<open>undefined\<close> when the
  array is empty. A JavaScript \<^verbatim>\<open>Map\<close> accepts that key, so the key type has both.
\<close>

datatype js_id = JUndefined | JString string

text \<open>
  The object literal of \<^verbatim>\<open>getConversationState\<close> (lines 12-18). The field
  \<^verbatim>\<open>id\<close> is named \<open>conv_id\<close> here; \<^verbatim>\<open>null\<close> is \<open>None\<close>; the phase is the
  string the source assigns.
\<close>

record ConversationState =
  conv_id :: js_id
  goal :: "string option"
  summary :: "string option"
  keyPoints :: "string list"
  phase :: string

text \<open>\<^verbatim>\<open>const conversationStates = new Map()\<close> (line 7).\<close>

type_synonym store = "js_id \<rightharpoonup> ConversationState"

definition initial_state :: "js_id \<Rightarrow> ConversationState" where
  "initial_state conversationId =
     \<lparr>conv_id = conversationId, goal = None, summary = None, keyPoints = [], phase = ''idle''\<rparr>"

text \<open>
  \<^verbatim>\<open>getConversationState\<close> (lines 9-22) returns the object stored under the key,
  after storing a fresh one when the key is missing. The returned object is the stored
  one, so a handler's later assignment to a field is a write to the store at that key.
\<close>

definition getConversationState :: "js_id \<Rightarrow> store \<Rightarrow> ConversationState \<times> store" where
  "getConversationState conversationId conversationStates =
     (case conversationStates conversationId of
        None \<Rightarrow> (initial_state conversationId,
                 conversationStates(conversationId \<mapsto> initial_state conversationId))
      | Some st \<Rightarrow> (st, conversationStates))"

section \<open>Identity resolution\<close>

text \<open>
  \<^verbatim>\<open>params.conversationId\<close> of the resource callback: a string, an array of strings,
  or anything else (absent).
\<close>

datatype param = PAbsent | PString string | PArray "string list"

text \<open>Lines 55-73 of the read callback, in the order of the source's tests.\<close>

fun determineConversationId :: "param \<Rightarrow> string option \<Rightarrow> js_id" where
  "determineConversationId (PString s) sessionId = JString s"
| "determineConversationId (PArray []) sessionId = JUndefined"
| "determineConversationId (PArray (x # xs)) sessionId = JString x"
| "determineConversationId PAbsent (Some s) = JString s"
| "determineConversationId PAbsent None = JString ''default''"

text \<open>
  The tools' resolution (lines 118, 134, 154 and 190, the same expression up to the
  spelling with \<^verbatim>\<open>??\<close>): the schema gives an optional string, the session identifier
  is optional too.
\<close>

definition toolConversationId :: "string option \<Rightarrow> string option \<Rightarrow> string" where
  "toolConversationId inputConvId sessionId =
     (case inputConvId of
        Some c \<Rightarrow> c
      | None \<Rightarrow> (case sessionId of Some s \<Rightarrow> s | None \<Rightarrow> ''default''))"

definition nonempty_identity :: "js_id \<Rightarrow> bool" where
  "nonempty_identity k = (case k of JUndefined \<Rightarrow> False | JString s \<Rightarrow> s \<noteq> [])"

section \<open>The resource read callback\<close>

datatype ErrorCode = InvalidParams

datatype McpError = McpError ErrorCode string

text \<open>One element of \<^verbatim>\<open>contents\<close> (lines 99-103): \<^verbatim>\<open>uri\<close>, \<^verbatim>\<open>text\<close>, \<^verbatim>\<open>mimeType\<close>.\<close>

record resource_content =
  res_uri :: string
  res_text :: string
  res_mimeType :: string

text \<open>\<^verbatim>\<open>Array.prototype.join\<close>.\<close>

fun join :: "string \<Rightarrow> string list \<Rightarrow> string" where
  "join sep [] = []"
| "join sep [x] = x"
| "join sep (x # y # ys) = x @ sep @ join sep (y # ys)"

definition valid_aspects :: "string list" where
  "valid_aspects = [''goal'', ''summary'', ''state'', ''keyPoints'']"

text \<open>The \<^verbatim>\<open>switch (aspect)\<close> of lines 78-97: the text, or the thrown error.\<close>

definition aspect_text :: "string \<Rightarrow> ConversationState \<Rightarrow> McpError + string" where
  "aspect_text aspect state =
     (if aspect = ''goal'' then
        Inr (case goal state of Some g \<Rightarrow> g | None \<Rightarrow> ''No conversation goal has been set yet.'')
      else if aspect = ''summary'' then
        Inr (case summary state of Some s \<Rightarrow> s
             | None \<Rightarrow> ''No summary is currently available for this conversation.'')
      else if aspect = ''state'' then
        Inr (''The conversation is currently in the '' @ [CHR 0x27] @ phase state
             @ [CHR 0x27] @ '' phase.'')
      else if aspect = ''keyPoints'' then
        Inr (if length (keyPoints state) > 0
             then join [CHR 0x0A] (map (\<lambda>p. ''- '' @ p) (keyPoints state))
             else ''No key points have been recorded yet.'')
      else
        Inl (McpError InvalidParams (''Unknown conversation aspect requested: '' @ aspect)))"

text \<open>
  The read callback (lines 53-105). The state is fetched (and created) on line 75, before
  the switch; a thrown error leaves the store as line 75 made it.
\<close>

definition conversationAspect ::
  "string \<Rightarrow> param \<Rightarrow> string \<Rightarrow> string option \<Rightarrow> store
     \<Rightarrow> (McpError + resource_content list) \<times> store" where
  "conversationAspect uri_href conversationId aspect sessionId conversationStates =
     (let determinedConversationId = determineConversationId conversationId sessionId;
          (state, conversationStates') =
             getConversationState determinedConversationId conversationStates
      in case aspect_text aspect state of
           Inl e \<Rightarrow> (Inl e, conversationStates')
         | Inr textContent \<Rightarrow>
             (Inr [\<lparr>res_uri = uri_href, res_text = textContent, res_mimeType = ''text/plain''\<rparr>],
              conversationStates'))"

section \<open>The tool handlers\<close>

text \<open>A tool's result \<^verbatim>\<open>{ content: [{ type: "text", text: t }] }\<close>.\<close>

datatype content_item = TextContent string

text \<open>\<^verbatim>\<open>set_conversation_goal\<close>, lines 117-127.\<close>

definition set_conversation_goal ::
  "string \<Rightarrow> string option \<Rightarrow> string option \<Rightarrow> store \<Rightarrow> content_item list \<times> store" where
  \<open>set_conversation_goal goalDescription inputConvId sessionId conversationStates =
     (let conversationId = JString (toolConversationId inputConvId sessionId);
          (state, conversationStates') = getConversationState conversationId conversationStates;
          state = state\<lparr>goal := Some goalDescription\<rparr>;
          state = state\<lparr>phase := ''exploring''\<rparr>
      in ([TextContent (''Conversation goal has been set to: "'' @ goalDescription @ ''"'')],
          conversationStates'(conversationId \<mapsto> state)))\<close>

text \<open>\<^verbatim>\<open>summarize_conversation\<close>, lines 133-148.\<close>

definition mockSummary :: "string \<Rightarrow> string" where
  "mockSummary textToSummarize =
     ''Summary based on text provided: '' @ take 150 textToSummarize
       @ (if length textToSummarize > 150 then ''...'' else '''')"

definition summarize_conversation ::
  "string \<Rightarrow> string option \<Rightarrow> string option \<Rightarrow> store \<Rightarrow> content_item list \<times> store" where
  "summarize_conversation textToSummarize inputConvId sessionId conversationStates =
     (let conversationId = JString (toolConversationId inputConvId sessionId);
          (state, conversationStates') = getConversationState conversationId conversationStates;
          state = state\<lparr>summary := Some (mockSummary textToSummarize)\<rparr>;
          state = state\<lparr>phase := ''summarizing''\<rparr>
      in ([TextContent ''OK, I've updated the conversation summary.''],
          conversationStates'(conversationId \<mapsto> state)))"

text \<open>
  \<^verbatim>\<open>suggest_next_step\<close>, lines 153-183. \<^verbatim>\<open>!state.goal\<close> holds for \<^verbatim>\<open>null\<close> and
  for the empty string.
\<close>

definition goal_falsy :: "string option \<Rightarrow> bool" where
  "goal_falsy g = (case g of None \<Rightarrow> True | Some s \<Rightarrow> s = [])"

definition suggestion_for :: "ConversationState \<Rightarrow> string \<times> ConversationState" where
  \<open>suggestion_for state =
     (if goal_falsy (goal state) then
        (''We haven't set a goal yet. Let's define the main objective using the 'set_conversation_goal' tool.'',
         state\<lparr>phase := ''defining_goal''\<rparr>)
      else
        (let g = (case goal state of Some s \<Rightarrow> s | None \<Rightarrow> []) in
         if phase state = ''defining_goal'' then
           (''Now that the goal is set to "'' @ g
              @ ''", maybe we can start exploring options or gathering information related to it?'',
            state)
         else if phase state = ''exploring'' then
           (''Continuing towards the goal "'' @ g
              @ ''", what specific aspect should we focus on next? Or perhaps we should record some key points?'',
            state)
         else if phase state = ''summarizing'' then
           (''I've just updated the summary. Based on that and our goal "'' @ g
              @ ''", what's the next priority?'',
            state)
         else
           (''Let's get started. We should probably define a goal for this conversation first using 'set_conversation_goal'.'',
            state\<lparr>phase := ''defining_goal''\<rparr>)))\<close>

definition suggest_next_step ::
  "string option \<Rightarrow> string option \<Rightarrow> store \<Rightarrow> content_item list \<times> store" where
  "suggest_next_step inputConvId sessionId conversationStates =
     (let conversationId = JString (toolConversationId inputConvId sessionId);
          (state, conversationStates') = getConversationState conversationId conversationStates;
          (suggestion, state') = suggestion_for state
      in ([TextContent suggestion], conversationStates'(conversationId \<mapsto> state')))"

text \<open>\<^verbatim>\<open>record_key_point\<close>, lines 189-201.\<close>

definition record_key_point ::
  "string \<Rightarrow> string option \<Rightarrow> string option \<Rightarrow> store \<Rightarrow> content_item list \<times> store" where
  \<open>record_key_point keyPoint inputConvId sessionId conversationStates =
     (let conversationId = JString (toolConversationId inputConvId sessionId);
          (state, conversationStates') = getConversationState conversationId conversationStates
      in if keyPoint \<notin> set (keyPoints state) then
           ([TextContent (''Noted. Key point recorded: "'' @ keyPoint @ ''"'')],
            conversationStates'(conversationId \<mapsto>
               state\<lparr>keyPoints := keyPoints state @ [keyPoint]\<rparr>))
         else
           ([TextContent ''That point seems to be already recorded.''], conversationStates'))\<close>

section \<open>Requests and reachable stores\<close>

text \<open>
  The requests the server answers. A tool's handler runs only when its arguments pass the
  schema registered with it (\<^verbatim>\<open>z.string().min(5)\<close> on lines 113 and 187,
  \<^verbatim>\<open>z.string().min(10)\<close> on line 131); a rejected call never reaches the handler and
  the store stays as it was.
\<close>

datatype request =
    SetConversationGoal string "string option" "string option"
  | SummarizeConversation string "string option" "string option"
  | SuggestNextStep "string option" "string option"
  | RecordKeyPoint string "string option" "string option"
  | ReadResource string param string "string option"

fun handle :: "request \<Rightarrow> store \<Rightarrow> store" where
  "handle (SetConversationGoal g c sid) st =
     (if 5 \<le> length g then snd (set_conversation_goal g c sid st) else st)"
| "handle (SummarizeConversation t c sid) st =
     (if 10 \<le> length t then snd (summarize_conversation t c sid st) else st)"
| "handle (SuggestNextStep c sid) st = snd (suggest_next_step c sid st)"
| "handle (RecordKeyPoint p c sid) st =
     (if 5 \<le> length p then snd (record_key_point p c sid st) else st)"
| "handle (ReadResource u c a sid) st = snd (conversationAspect u c a sid st)"

fun run :: "request list \<Rightarrow> store \<Rightarrow> store" where
  "run [] st = st"
| "run (r # rs) st = run rs (handle r st)"

definition valid_phases :: "string list" where
  "valid_phases = [''idle'', ''defining_goal'', ''exploring'', ''summarizing'']"

text \<open>Reading a tool result and a store.\<close>

fun item_text :: "content_item \<Rightarrow> string" where
  "item_text (TextContent t) = t"

definition result_text :: "content_item list \<Rightarrow> string" where
  "result_text r = concat (map item_text r)"

definition stored_summary :: "store \<Rightarrow> js_id \<Rightarrow> string option" where
  "stored_summary st k = Option.bind (st k) summary"

definition stored_phase :: "store \<Rightarrow> js_id \<Rightarrow> string option" where
  "stored_phase st k = map_option phase (st k)"

text \<open>
  The invariant of the store: an entry carries its key as \<open>conv_id\<close>, its phase is one of
  the four names, its key points are distinct, and a stored goal has passed the schema and
  has moved the phase away from \<open>idle\<close>.
\<close>

definition state_ok :: "js_id \<Rightarrow> ConversationState \<Rightarrow> bool" where
  "state_ok k s =
     (conv_id s = k \<and> phase s \<in> set valid_phases \<and> distinct (keyPoints s)
      \<and> (\<forall>g. goal s = Some g \<longrightarrow> 5 \<le> length g \<and> phase s \<noteq> ''idle''))"

definition store_ok :: "store \<Rightarrow> bool" where
  "store_ok st = (\<forall>k s. st k = Some s \<longrightarrow> state_ok k s)"

section \<open>Basic facts about the store and the handlers\<close>

lemma getConversationState_lookup:
  "snd (getConversationState k st) k = Some (fst (getConversationState k st))"
  by (simp add: getConversationState_def split: option.splits)

lemma getConversationState_other:
  "k' \<noteq> k \<Longrightarrow> snd (getConversationState k st) k' = st k'"
  by (simp add: getConversationState_def split: option.splits)

lemma getConversationState_present:
  "st k = Some s \<Longrightarrow> getConversationState k st = (s, st)"
  by (simp add: getConversationState_def)

lemma getConversationState_absent:
  "st k = None \<Longrightarrow> getConversationState k st = (initial_state k, st(k \<mapsto> initial_state k))"
  by (simp add: getConversationState_def)

lemma set_conversation_goal_snd:
  "snd (set_conversation_goal g c sid st) =
     (snd (getConversationState (JString (toolConversationId c sid)) st))
       (JString (toolConversationId c sid) \<mapsto>
          (fst (getConversationState (JString (toolConversationId c sid)) st))
            \<lparr>goal := Some g, phase := ''exploring''\<rparr>)"
  by (simp add: set_conversation_goal_def Let_def split_beta)

lemma summarize_conversation_snd:
  "snd (summarize_conversation t c sid st) =
     (snd (getConversationState (JString (toolConversationId c sid)) st))
       (JString (toolConversationId c sid) \<mapsto>
          (fst (getConversationState (JString (toolConversationId c sid)) st))
            \<lparr>summary := Some (mockSummary t), phase := ''summarizing''\<rparr>)"
  by (simp add: summarize_conversation_def Let_def split_beta)

lemma suggest_next_step_snd:
  "snd (suggest_next_step c sid st) =
     (snd (getConversationState (JString (toolConversationId c sid)) st))
       (JString (toolConversationId c sid) \<mapsto>
          snd (suggestion_for (fst (getConversationState (JString (toolConversationId c sid)) st))))"
  by (simp add: suggest_next_step_def Let_def split_beta)

lemma record_key_point_snd:
  "snd (record_key_point p c sid st) =
     (if p \<in> set (keyPoints (fst (getConversationState (JString (toolConversationId c sid)) st)))
      then snd (getConversationState (JString (toolConversationId c sid)) st)
      else (snd (getConversationState (JString (toolConversationId c sid)) st))
       (JString (toolConversationId c sid) \<mapsto>
          (fst (getConversationState (JString (toolConversationId c sid)) st))
            \<lparr>keyPoints :=
               keyPoints (fst (getConversationState (JString (toolConversationId c sid)) st))
                 @ [p]\<rparr>))"
  by (simp add: record_key_point_def Let_def split_beta)

lemma conversationAspect_snd:
  "snd (conversationAspect u p a sid st)
     = snd (getConversationState (determineConversationId p sid) st)"
  by (simp add: conversationAspect_def Let_def split_beta split: sum.splits)

lemma conversationAspect_fst:
  "fst (conversationAspect u p a sid st) =
     (case aspect_text a (fst (getConversationState (determineConversationId p sid) st)) of
        Inl e \<Rightarrow> Inl e
      | Inr t \<Rightarrow> Inr [\<lparr>res_uri = u, res_text = t, res_mimeType = ''text/plain''\<rparr>])"
  by (simp add: conversationAspect_def Let_def split_beta split: sum.splits)

lemma aspect_text_unknown:
  "aspect \<notin> set valid_aspects \<Longrightarrow>
   aspect_text aspect s
     = Inl (McpError InvalidParams (''Unknown conversation aspect requested: '' @ aspect))"
  by (simp add: aspect_text_def valid_aspects_def)

lemma suggestion_for_phase:
  "phase (snd (suggestion_for s)) =
     (if goal_falsy (goal s) then ''defining_goal''
      else if phase s = ''defining_goal'' \<or> phase s = ''exploring'' \<or> phase s = ''summarizing''
      then phase s else ''defining_goal'')"
  by (auto simp: suggestion_for_def Let_def)

lemma suggestion_for_frame:
  "conv_id (snd (suggestion_for s)) = conv_id s"
  "goal (snd (suggestion_for s)) = goal s"
  "summary (snd (suggestion_for s)) = summary s"
  "keyPoints (snd (suggestion_for s)) = keyPoints s"
  by (auto simp: suggestion_for_def Let_def)

section \<open>The store invariant holds after every sequence of requests\<close>

lemma initial_state_ok: "state_ok k (initial_state k)"
  by (simp add: state_ok_def initial_state_def valid_phases_def)

lemma store_ok_empty: "store_ok Map.empty"
  by (simp add: store_ok_def)

lemma store_ok_upd: "store_ok st \<Longrightarrow> state_ok k s \<Longrightarrow> store_ok (st(k \<mapsto> s))"
  by (simp add: store_ok_def)

lemma getConversationState_ok:
  assumes "store_ok st"
  shows "state_ok k (fst (getConversationState k st))"
    and "store_ok (snd (getConversationState k st))"
  using assms
  by (auto simp: getConversationState_def store_ok_def initial_state_ok split: option.splits)

lemma suggestion_for_ok: "state_ok k s \<Longrightarrow> state_ok k (snd (suggestion_for s))"
  by (auto simp: state_ok_def suggestion_for_phase suggestion_for_frame valid_phases_def)

lemma handle_ok: "store_ok st \<Longrightarrow> store_ok (handle r st)"
proof (cases r)
  case (SetConversationGoal g c sid)
  assume ok: "store_ok st"
  let ?k = "JString (toolConversationId c sid)"
  from ok getConversationState_ok[OF ok, of ?k]
  show ?thesis unfolding SetConversationGoal
    by (auto simp: set_conversation_goal_snd state_ok_def valid_phases_def intro!: store_ok_upd)
next
  case (SummarizeConversation t c sid)
  assume ok: "store_ok st"
  let ?k = "JString (toolConversationId c sid)"
  from ok getConversationState_ok[OF ok, of ?k]
  show ?thesis unfolding SummarizeConversation
    by (auto simp: summarize_conversation_snd state_ok_def valid_phases_def intro!: store_ok_upd)
next
  case (SuggestNextStep c sid)
  assume ok: "store_ok st"
  let ?k = "JString (toolConversationId c sid)"
  from ok getConversationState_ok[OF ok, of ?k]
  show ?thesis unfolding SuggestNextStep
    by (auto simp: suggest_next_step_snd suggestion_for_ok intro!: store_ok_upd)
next
  case (RecordKeyPoint p c sid)
  assume ok: "store_ok st"
  let ?k = "JString (toolConversationId c sid)"
  from ok getConversationState_ok[OF ok, of ?k]
  show ?thesis unfolding RecordKeyPoint
    by (auto simp: record_key_point_snd state_ok_def intro!: store_ok_upd)
next
  case (ReadResource u p a sid)
  assume ok: "store_ok st"
  from getConversationState_ok(2)[OF ok]
  show ?thesis unfolding ReadResource
    by (simp add: conversationAspect_snd)
qed

lemma run_ok: "store_ok st \<Longrightarrow> store_ok (run rs st)"
  by (induction rs arbitrary: st) (auto simp: handle_ok)

lemma reachable_ok: "run rs Map.empty k = Some s \<Longrightarrow> state_ok k s"
  using run_ok[OF store_ok_empty, of rs] by (simp add: store_ok_def)

section \<open>Reading an unknown aspect\<close>

text \<open>
  C1, as stated, fails: the read callback looks the conversation up on line 75, before the
  switch, so a read of an unknown aspect for a conversation never seen before throws the
  invalid-parameters error and still leaves a fresh entry in the store.
\<close>

theorem unknown_aspect_creates_entry:
  "fst (conversationAspect ''conversation://conv1/bogus'' (PString ''conv1'') ''bogus'' None
          Map.empty)
     = Inl (McpError InvalidParams ''Unknown conversation aspect requested: bogus'')
   \<and> snd (conversationAspect ''conversation://conv1/bogus'' (PString ''conv1'') ''bogus'' None
            Map.empty)
     \<noteq> Map.empty"
  by (simp add: conversationAspect_def getConversationState_def aspect_text_def Let_def)

text \<open>
  C1, amended: for every conversation identity and every aspect outside
  goal, summary, state, keyPoints, the read signals the invalid-parameters error naming
  the aspect; every entry of another identity is unchanged; the whole store is unchanged
  when the resolved identity already has an entry; and when it has none, the lookup that
  precedes the rejection has stored the initial state under it.
\<close>

theorem unknown_aspect_rejected_after_lookup:
  assumes "aspect \<notin> set valid_aspects"
  shows "fst (conversationAspect u p aspect sid st)
           = Inl (McpError InvalidParams (''Unknown conversation aspect requested: '' @ aspect))
       \<and> (\<forall>k. k \<noteq> determineConversationId p sid \<longrightarrow>
              snd (conversationAspect u p aspect sid st) k = st k)
       \<and> (st (determineConversationId p sid) \<noteq> None \<longrightarrow>
              snd (conversationAspect u p aspect sid st) = st)
       \<and> (st (determineConversationId p sid) = None \<longrightarrow>
              snd (conversationAspect u p aspect sid st)
                = st(determineConversationId p sid \<mapsto>
                       initial_state (determineConversationId p sid)))"
  using assms
  by (auto simp: conversationAspect_fst conversationAspect_snd aspect_text_unknown
        getConversationState_other getConversationState_present getConversationState_absent)

theorem unknown_aspect_rejected_after_lookup_witness:
  "''fullstate'' \<notin> set valid_aspects
   \<and> fst (conversationAspect ''conversation://conv1/fullstate'' (PString ''conv1'') ''fullstate''
            None
            [JString ''conv1'' \<mapsto> initial_state (JString ''conv1'')])
       = Inl (McpError InvalidParams ''Unknown conversation aspect requested: fullstate'')
   \<and> snd (conversationAspect ''conversation://conv1/fullstate'' (PString ''conv1'') ''fullstate''
            None
            [JString ''conv1'' \<mapsto> initial_state (JString ''conv1'')])
       = [JString ''conv1'' \<mapsto> initial_state (JString ''conv1'')]
   \<and> snd (conversationAspect ''conversation://conv2/fullstate'' (PString ''conv2'') ''fullstate''
            None
            [JString ''conv1'' \<mapsto> initial_state (JString ''conv1'')])
       = [JString ''conv1'' \<mapsto> initial_state (JString ''conv1''),
          JString ''conv2'' \<mapsto> initial_state (JString ''conv2'')]"
proof -
  have h: "''fullstate'' \<notin> set valid_aspects"
    by (simp add: valid_aspects_def)
  show ?thesis
    using h
      unknown_aspect_rejected_after_lookup [OF h, of "''conversation://conv1/fullstate''"
        "PString ''conv1''" None "[JString ''conv1'' \<mapsto> initial_state (JString ''conv1'')]"]
      unknown_aspect_rejected_after_lookup [OF h, of "''conversation://conv2/fullstate''"
        "PString ''conv2''" None "[JString ''conv1'' \<mapsto> initial_state (JString ''conv1'')]"]
    by simp
qed

section \<open>The order of identity resolution\<close>

text \<open>
  C2, as stated, fails: an explicit identifier that is the empty string is returned as it
  is, by the resource callback and by the tools alike, so the identity is not always
  non-empty.
\<close>

theorem empty_identifier_resolves_to_empty_identity:
  "\<not> nonempty_identity (determineConversationId (PString '''') (Some ''session-1''))
   \<and> \<not> nonempty_identity (JString (toolConversationId (Some '''') (Some ''session-1'')))"
  by (simp add: nonempty_identity_def toolConversationId_def)

text \<open>
  The empty array is the other input of C2 that gives no string: element 0 of an empty
  array is \<^verbatim>\<open>undefined\<close>, although the comments on lines 54 and 75 say the identifier
  is ensured to be a string.
\<close>

lemma empty_sequence_resolves_to_undefined:
  "determineConversationId (PArray []) (Some ''session-1'') = JUndefined"
  by simp

text \<open>
  C2, amended: for an explicit identifier that is absent, a single string or a non-empty
  sequence of strings, and for every session identifier, resolution gives exactly one
  identity string, chosen in order: the explicit identifier if it is a single string; the
  first element if it is a sequence; the session identifier if there is one; otherwise
  the literal \<open>default\<close>. The chosen candidate is returned as it is, so the identity is
  non-empty exactly when the chosen candidate is.
\<close>

theorem identity_resolution_order:
  "determineConversationId (PString s) sid = JString s
   \<and> determineConversationId (PArray (x # xs)) sid = JString x
   \<and> determineConversationId PAbsent (Some t) = JString t
   \<and> determineConversationId PAbsent None = JString ''default''
   \<and> toolConversationId (Some s) sid = s
   \<and> toolConversationId None (Some t) = t
   \<and> toolConversationId None None = ''default''
   \<and> nonempty_identity (determineConversationId (PString s) sid) = (s \<noteq> [])
   \<and> nonempty_identity (determineConversationId (PArray (x # xs)) sid) = (x \<noteq> [])
   \<and> nonempty_identity (determineConversationId PAbsent (Some t)) = (t \<noteq> [])
   \<and> nonempty_identity (determineConversationId PAbsent None)
   \<and> nonempty_identity (JString (toolConversationId (Some s) sid)) = (s \<noteq> [])
   \<and> nonempty_identity (JString (toolConversationId None (Some t))) = (t \<noteq> [])
   \<and> nonempty_identity (JString (toolConversationId None None))"
  by (simp add: nonempty_identity_def toolConversationId_def)

section \<open>Phase transitions\<close>

text \<open>
  C3: with \<open>k\<close> the resolved identity and \<open>s\<close> the state the handler works on (the stored
  one, or the initial one when the identity is new), set_conversation_goal leaves the
  phase at exploring, summarize_conversation at summarizing, record_key_point at the phase
  of \<open>s\<close>; suggest_next_step leaves it at defining_goal when no goal is set, whatever the
  phase was, and when a goal is set it keeps each of the four phases except idle, which
  becomes defining_goal. "No goal is set" is the source's test \<^verbatim>\<open>!state.goal\<close>:
  \<open>goal_falsy\<close>, true of \<^verbatim>\<open>null\<close> and of the empty text.
\<close>

theorem phase_transitions:
  assumes "k = JString (toolConversationId c sid)"
    and "s = fst (getConversationState k st)"
  shows "stored_phase (snd (set_conversation_goal g c sid st)) k = Some ''exploring''
       \<and> stored_phase (snd (summarize_conversation t c sid st)) k = Some ''summarizing''
       \<and> stored_phase (snd (record_key_point p c sid st)) k = Some (phase s)
       \<and> (goal_falsy (goal s) \<longrightarrow>
            stored_phase (snd (suggest_next_step c sid st)) k = Some ''defining_goal'')
       \<and> (\<not> goal_falsy (goal s) \<and> phase s \<in> set valid_phases \<longrightarrow>
            stored_phase (snd (suggest_next_step c sid st)) k
              = Some (if phase s = ''idle'' then ''defining_goal'' else phase s))"
  using assms
  by (auto simp: stored_phase_def set_conversation_goal_snd summarize_conversation_snd
        record_key_point_snd suggest_next_step_snd suggestion_for_phase
        getConversationState_lookup valid_phases_def)

theorem phase_transitions_witness:
  "stored_phase (snd (set_conversation_goal ''Plan a trip'' (Some ''conv1'') None Map.empty))
       (JString ''conv1'') = Some ''exploring''
   \<and> stored_phase (snd (suggest_next_step (Some ''conv1'') None
        [JString ''conv1'' \<mapsto> \<lparr>conv_id = JString ''conv1'', goal = Some ''Plan a trip'',
            summary = None, keyPoints = [], phase = ''idle''\<rparr>])) (JString ''conv1'')
      = Some ''defining_goal''
   \<and> stored_phase (snd (suggest_next_step (Some ''conv1'') None
        [JString ''conv1'' \<mapsto> \<lparr>conv_id = JString ''conv1'', goal = Some ''Plan a trip'',
            summary = None, keyPoints = [], phase = ''summarizing''\<rparr>])) (JString ''conv1'')
      = Some ''summarizing''
   \<and> stored_phase (snd (suggest_next_step (Some ''conv1'') None
        [JString ''conv1'' \<mapsto> \<lparr>conv_id = JString ''conv1'', goal = None,
            summary = None, keyPoints = [], phase = ''exploring''\<rparr>])) (JString ''conv1'')
      = Some ''defining_goal''"
proof -
  have k: "JString ''conv1'' = JString (toolConversationId (Some ''conv1'') None)"
    by (simp add: toolConversationId_def)
  note t = phase_transitions [OF k refl]
  show ?thesis
    using t [where st = Map.empty and g = "''Plan a trip''"]
      t [where st = "[JString ''conv1'' \<mapsto> \<lparr>conv_id = JString ''conv1'', goal = Some ''Plan a trip'',
            summary = None, keyPoints = [], phase = ''idle''\<rparr>]"]
      t [where st = "[JString ''conv1'' \<mapsto> \<lparr>conv_id = JString ''conv1'', goal = Some ''Plan a trip'',
            summary = None, keyPoints = [], phase = ''summarizing''\<rparr>]"]
      t [where st = "[JString ''conv1'' \<mapsto> \<lparr>conv_id = JString ''conv1'', goal = None,
            summary = None, keyPoints = [], phase = ''exploring''\<rparr>]"]
    by (simp add: getConversationState_def goal_falsy_def valid_phases_def)
qed

text \<open>
  In a store the requests can produce, a goal that fails the source's test is
  \<^verbatim>\<open>null\<close>: the schema lets no goal shorter than five characters through.
\<close>

lemma reachable_goal_set:
  "run rs Map.empty k = Some s \<Longrightarrow> goal_falsy (goal s) = (goal s = None)"
  using reachable_ok[of rs k s]
  by (auto simp: state_ok_def goal_falsy_def split: option.splits)

section \<open>The suggestion and the goal\<close>






section \<open>Recording key points\<close>

lemma record_key_point_fst:
  \<open>fst (record_key_point p c sid st) =
     (if p \<in> set (keyPoints (fst (getConversationState (JString (toolConversationId c sid)) st)))
      then [TextContent ''That point seems to be already recorded.'']
      else [TextContent (''Noted. Key point recorded: "'' @ p @ ''"'')])\<close>
  by (simp add: record_key_point_def Let_def split_beta)

lemma getConversationState_unchanged_if_keyPoint:
  "p \<in> set (keyPoints (fst (getConversationState k st))) \<Longrightarrow>
   snd (getConversationState k st) = st"
  by (auto simp: getConversationState_def initial_state_def split: option.splits)

text \<open>
  C5: key points never repeat. In every store produced by requests from the empty store,
  the key points of every conversation are distinct. For every store, with \<open>s\<close> the
  state the handler works on: a point already among the key points gets the
  "already recorded" answer and the whole store is left as it was; a point not yet there
  is appended at the end and the answer echoes its exact text; the phase is the same
  after both, and the two answers differ.
\<close>

theorem key_points_never_repeat:
  assumes "k = JString (toolConversationId c sid)"
    and "s = fst (getConversationState k st)"
  shows \<open>(\<forall>rs k' s'. run rs Map.empty k' = Some s' \<longrightarrow> distinct (keyPoints s'))
       \<and> (p \<in> set (keyPoints s) \<longrightarrow>
            record_key_point p c sid st
              = ([TextContent ''That point seems to be already recorded.''], st))
       \<and> (p \<notin> set (keyPoints s) \<longrightarrow>
            fst (record_key_point p c sid st)
              = [TextContent (''Noted. Key point recorded: "'' @ p @ ''"'')]
            \<and> snd (record_key_point p c sid st) k
              = Some (s\<lparr>keyPoints := keyPoints s @ [p]\<rparr>))
       \<and> stored_phase (snd (record_key_point p c sid st)) k = Some (phase s)
       \<and> [TextContent ''That point seems to be already recorded.'']
            \<noteq> [TextContent (''Noted. Key point recorded: "'' @ p @ ''"'')]\<close>
proof -
  have d: "\<forall>rs k' s'. run rs Map.empty k' = Some s' \<longrightarrow> distinct (keyPoints s')"
    using reachable_ok by (auto simp: state_ok_def)
  have a: "p \<in> set (keyPoints s) \<longrightarrow>
            record_key_point p c sid st
              = ([TextContent ''That point seems to be already recorded.''], st)"
    using assms getConversationState_unchanged_if_keyPoint [of p k st]
    by (auto simp: prod_eq_iff record_key_point_fst record_key_point_snd)
  have b: \<open>p \<notin> set (keyPoints s) \<longrightarrow>
            fst (record_key_point p c sid st)
              = [TextContent (''Noted. Key point recorded: "'' @ p @ ''"'')]
            \<and> snd (record_key_point p c sid st) k
              = Some (s\<lparr>keyPoints := keyPoints s @ [p]\<rparr>)\<close>
    using assms by (simp add: record_key_point_fst record_key_point_snd)
  have e: "stored_phase (snd (record_key_point p c sid st)) k = Some (phase s)"
    using assms
    by (simp add: stored_phase_def record_key_point_snd getConversationState_lookup)
  have f: \<open>[TextContent ''That point seems to be already recorded.'']
            \<noteq> [TextContent (''Noted. Key point recorded: "'' @ p @ ''"'')]\<close>
    by simp
  from d a b e f show ?thesis by blast
qed

theorem key_points_never_repeat_witness:
  \<open>run [RecordKeyPoint ''Visit Paris'' (Some ''conv1'') None,
        RecordKeyPoint ''Visit Paris'' (Some ''conv1'') None] Map.empty (JString ''conv1'')
     = Some \<lparr>conv_id = JString ''conv1'', goal = None, summary = None,
              keyPoints = [''Visit Paris''], phase = ''idle''\<rparr>
   \<and> distinct [''Visit Paris'']
   \<and> fst (record_key_point ''Visit Paris'' (Some ''conv1'') None Map.empty)
       = [TextContent ''Noted. Key point recorded: "Visit Paris"'']
   \<and> record_key_point ''Visit Paris'' (Some ''conv1'') None
        [JString ''conv1'' \<mapsto> \<lparr>conv_id = JString ''conv1'', goal = None, summary = None,
              keyPoints = [''Visit Paris''], phase = ''idle''\<rparr>]
       = ([TextContent ''That point seems to be already recorded.''],
          [JString ''conv1'' \<mapsto> \<lparr>conv_id = JString ''conv1'', goal = None, summary = None,
              keyPoints = [''Visit Paris''], phase = ''idle''\<rparr>])\<close>
proof -
  let ?s1 = "\<lparr>conv_id = JString ''conv1'', goal = None, summary = None,
              keyPoints = [''Visit Paris''], phase = ''idle''\<rparr>"
  have k: "JString ''conv1'' = JString (toolConversationId (Some ''conv1'') None)"
    by (simp add: toolConversationId_def)
  have r: "run [RecordKeyPoint ''Visit Paris'' (Some ''conv1'') None,
        RecordKeyPoint ''Visit Paris'' (Some ''conv1'') None] Map.empty (JString ''conv1'')
     = Some ?s1"
    by (simp add: record_key_point_snd toolConversationId_def getConversationState_def
          initial_state_def)
  note t = key_points_never_repeat [OF k refl, where p = "''Visit Paris''"]
  have s0: "fst (getConversationState (JString ''conv1'') Map.empty)
              = initial_state (JString ''conv1'')"
    by (simp add: getConversationState_def)
  have s1: "fst (getConversationState (JString ''conv1'') [JString ''conv1'' \<mapsto> ?s1]) = ?s1"
    by (simp add: getConversationState_def)
  from t [where st = Map.empty] r have "distinct (keyPoints ?s1)" by blast
  moreover from t [where st = Map.empty]
  have \<open>fst (record_key_point ''Visit Paris'' (Some ''conv1'') None Map.empty)
       = [TextContent ''Noted. Key point recorded: "Visit Paris"'']\<close>
    unfolding s0 by (simp add: initial_state_def)
  moreover from t [where st = "[JString ''conv1'' \<mapsto> ?s1]"]
  have "record_key_point ''Visit Paris'' (Some ''conv1'') None [JString ''conv1'' \<mapsto> ?s1]
       = ([TextContent ''That point seems to be already recorded.''], [JString ''conv1'' \<mapsto> ?s1])"
    unfolding s1 by simp
  ultimately show ?thesis using r by simp
qed

section \<open>The stored summary\<close>

lemma summarize_conversation_fst:
  "fst (summarize_conversation t c sid st)
     = [TextContent ''OK, I've updated the conversation summary.'']"
  by (simp add: summarize_conversation_def Let_def split_beta)

lemma summarize_conversation_stored:
  "stored_summary (snd (summarize_conversation t c sid st))
     (JString (toolConversationId c sid)) = Some (mockSummary t)"
  by (simp add: stored_summary_def summarize_conversation_snd)

lemma label_not_in_acknowledgment:
  "\<not> sublist ''Summary based on text provided: '' ''OK, I've updated the conversation summary.''"
  by code_simp

lemma mockSummary_not_in_acknowledgment:
  "\<not> sublist (mockSummary t) ''OK, I've updated the conversation summary.''"
proof
  assume a: "sublist (mockSummary t) ''OK, I've updated the conversation summary.''"
  have "sublist ''Summary based on text provided: '' (mockSummary t)"
    unfolding mockSummary_def by (rule sublist_append_rightI)
  from sublist_order.order_trans [OF this a] label_not_in_acknowledgment
  show False by blast
qed

text \<open>
  C6: for a text of at least 10 characters, summarize_conversation stores the fixed label
  followed by the first 150 characters of the text, followed by the three dots exactly
  when the text is longer than 150 (a text of 150 or fewer is stored whole after the
  label), and answers with a fixed acknowledgment that does not contain the summary.
\<close>

theorem summary_is_labelled_prefix:
  assumes "10 \<le> length t"
  shows "stored_summary (snd (summarize_conversation t c sid st))
           (JString (toolConversationId c sid))
         = Some (''Summary based on text provided: '' @ take 150 t
                  @ (if 150 < length t then ''...'' else []))
       \<and> (length t \<le> 150 \<longrightarrow>
            stored_summary (snd (summarize_conversation t c sid st))
              (JString (toolConversationId c sid))
            = Some (''Summary based on text provided: '' @ t))
       \<and> (150 < length t \<longrightarrow>
            stored_summary (snd (summarize_conversation t c sid st))
              (JString (toolConversationId c sid))
            = Some (''Summary based on text provided: '' @ take 150 t @ ''...''))
       \<and> fst (summarize_conversation t c sid st)
           = [TextContent ''OK, I've updated the conversation summary.'']
       \<and> \<not> sublist (mockSummary t)
             (result_text (fst (summarize_conversation t c sid st)))"
proof -
  have n: "\<not> sublist (mockSummary t) (result_text (fst (summarize_conversation t c sid st)))"
    using mockSummary_not_in_acknowledgment [of t]
    by (simp add: summarize_conversation_fst result_text_def)
  have m: "stored_summary (snd (summarize_conversation t c sid st))
             (JString (toolConversationId c sid))
           = Some (''Summary based on text provided: '' @ take 150 t
                    @ (if 150 < length t then ''...'' else []))"
    by (simp only: summarize_conversation_stored mockSummary_def)
  have le: "length t \<le> 150 \<longrightarrow>
            stored_summary (snd (summarize_conversation t c sid st))
              (JString (toolConversationId c sid))
            = Some (''Summary based on text provided: '' @ t)"
    by (simp add: summarize_conversation_stored mockSummary_def)
  have gt: "150 < length t \<longrightarrow>
            stored_summary (snd (summarize_conversation t c sid st))
              (JString (toolConversationId c sid))
            = Some (''Summary based on text provided: '' @ take 150 t @ ''...'')"
    by (simp add: summarize_conversation_stored mockSummary_def)
  from m le gt summarize_conversation_fst [of t c sid st] n show ?thesis
    by blast
qed

theorem summary_is_labelled_prefix_witness:
  "10 \<le> length ''0123456789''
   \<and> stored_summary (snd (summarize_conversation ''0123456789'' (Some ''conv1'') None Map.empty))
        (JString ''conv1'')
      = Some ''Summary based on text provided: 0123456789''
   \<and> stored_summary (snd (summarize_conversation (replicate 150 CHR ''a'') None None Map.empty))
        (JString ''default'')
      = Some (''Summary based on text provided: '' @ replicate 150 CHR ''a'')
   \<and> stored_summary (snd (summarize_conversation (replicate 151 CHR ''a'') None None Map.empty))
        (JString ''default'')
      = Some (''Summary based on text provided: '' @ replicate 150 CHR ''a'' @ ''...'')"
proof -
  have h: "10 \<le> length ''0123456789''" by simp
  have h150: "10 \<le> length (replicate 150 CHR ''a'')" by simp
  have h151: "10 \<le> length (replicate 151 CHR ''a'')" by simp
  have t: "take 150 (replicate 151 CHR ''a'') = replicate 150 CHR ''a''" by simp
  show ?thesis
    using h summary_is_labelled_prefix [OF h, of "Some ''conv1''" None Map.empty]
      summary_is_labelled_prefix [OF h150, of None None Map.empty]
      summary_is_labelled_prefix [OF h151, of None None Map.empty]
    by (simp add: toolConversationId_def t)
qed

text \<open>
  C10: for a text of at least 10 characters, the stored summary is between 42 and 185
  characters long: the 32 characters of the label, at most 150 of the text, and 3 more
  only when the text is longer than 150.
\<close>

theorem summary_length_bounds:
  assumes "10 \<le> length t"
  shows "\<exists>sm. stored_summary (snd (summarize_conversation t c sid st))
                 (JString (toolConversationId c sid)) = Some sm
            \<and> 42 \<le> length sm \<and> length sm \<le> 185
            \<and> length ''Summary based on text provided: '' = 32
            \<and> length sm = 32 + min 150 (length t) + (if 150 < length t then 3 else 0)"
  using assms
  by (simp add: summarize_conversation_stored mockSummary_def min_def)

theorem summary_length_bounds_witness:
  "10 \<le> length ''0123456789''
   \<and> (\<exists>sm. stored_summary (snd (summarize_conversation ''0123456789'' None None Map.empty))
              (JString ''default'') = Some sm \<and> length sm = 42)
   \<and> (\<exists>sm. stored_summary (snd (summarize_conversation (replicate 200 CHR ''x'') None None Map.empty))
              (JString ''default'') = Some sm \<and> length sm = 185)"
proof -
  have h: "10 \<le> length ''0123456789''" by simp
  have h2: "10 \<le> length (replicate 200 CHR ''x'')" by simp
  show ?thesis
    using h summary_length_bounds [OF h, of None None Map.empty]
      summary_length_bounds [OF h2, of None None Map.empty]
    by (auto simp: toolConversationId_def)
qed

section \<open>First read of a new identity\<close>

lemma getConversationState_idem:
  "getConversationState k (snd (getConversationState k st)) = getConversationState k st"
  by (simp add: getConversationState_def split: option.splits)

lemma aspect_text_initial:
  "aspect_text ''goal'' (initial_state k) = Inr ''No conversation goal has been set yet.''"
  "aspect_text ''summary'' (initial_state k)
     = Inr ''No summary is currently available for this conversation.''"
  "aspect_text ''state'' (initial_state k)
     = Inr ''The conversation is currently in the 'idle' phase.''"
  "aspect_text ''keyPoints'' (initial_state k) = Inr ''No key points have been recorded yet.''"
  by (simp_all add: aspect_text_def initial_state_def)

text \<open>
  What a read returns after each tool has written, for every store: the text of the
  aspect is rendered from the entry the tool left.
\<close>

lemma read_goal_after_set_goal:
  "fst (conversationAspect u (PString c) ''goal'' sid
          (snd (set_conversation_goal g (Some c) sid' st)))
     = Inr [\<lparr>res_uri = u, res_text = g, res_mimeType = ''text/plain''\<rparr>]"
  by (simp add: conversationAspect_fst set_conversation_goal_snd toolConversationId_def
        getConversationState_def aspect_text_def)

lemma read_state_after_set_goal:
  "fst (conversationAspect u (PString c) ''state'' sid
          (snd (set_conversation_goal g (Some c) sid' st)))
     = Inr [\<lparr>res_uri = u,
             res_text = ''The conversation is currently in the 'exploring' phase.'',
             res_mimeType = ''text/plain''\<rparr>]"
  by (simp add: conversationAspect_fst set_conversation_goal_snd toolConversationId_def
        getConversationState_def aspect_text_def)

lemma read_summary_after_summarize:
  "fst (conversationAspect u (PString c) ''summary'' sid
          (snd (summarize_conversation t (Some c) sid' st)))
     = Inr [\<lparr>res_uri = u,
             res_text = ''Summary based on text provided: '' @ take 150 t
                          @ (if 150 < length t then ''...'' else []),
             res_mimeType = ''text/plain''\<rparr>]"
  by (simp add: conversationAspect_fst summarize_conversation_snd toolConversationId_def
        getConversationState_def aspect_text_def mockSummary_def)

lemma read_state_after_summarize:
  "fst (conversationAspect u (PString c) ''state'' sid
          (snd (summarize_conversation t (Some c) sid' st)))
     = Inr [\<lparr>res_uri = u,
             res_text = ''The conversation is currently in the 'summarizing' phase.'',
             res_mimeType = ''text/plain''\<rparr>]"
  by (simp add: conversationAspect_fst summarize_conversation_snd toolConversationId_def
        getConversationState_def aspect_text_def)

lemma read_state_after_suggest:
  "fst (conversationAspect u (PString c) ''state'' sid
          (snd (suggest_next_step (Some c) sid' st)))
     = Inr [\<lparr>res_uri = u,
             res_text = ''The conversation is currently in the '' @ [CHR 0x27]
                @ phase (snd (suggestion_for (fst (getConversationState (JString c) st))))
                @ [CHR 0x27] @ '' phase.'',
             res_mimeType = ''text/plain''\<rparr>]"
  by (simp add: conversationAspect_fst suggest_next_step_snd toolConversationId_def
        getConversationState_present aspect_text_def)

lemma read_keyPoints_after_record:
  "fst (conversationAspect u (PString c) ''keyPoints'' sid
          (snd (record_key_point q (Some c) sid' st)))
     = Inr [\<lparr>res_uri = u,
             res_text = join [CHR 0x0A] (map (\<lambda>x. ''- '' @ x)
                (if q \<in> set (keyPoints (fst (getConversationState (JString c) st)))
                 then keyPoints (fst (getConversationState (JString c) st))
                 else keyPoints (fst (getConversationState (JString c) st)) @ [q])),
             res_mimeType = ''text/plain''\<rparr>]"
proof -
  have e: "((@) ''- '') = (\<lambda>x. CHR ''-'' # CHR '' '' # x)"
    by (simp add: fun_eq_iff)
  show ?thesis
  proof (cases "q \<in> set (keyPoints (fst (getConversationState (JString c) st)))")
    case True
    then have ne: "keyPoints (fst (getConversationState (JString c) st)) \<noteq> []"
      by auto
    from True ne show ?thesis
      by (simp add: conversationAspect_fst record_key_point_snd toolConversationId_def
            getConversationState_idem aspect_text_def e)
  next
    case False
    then show ?thesis
      by (simp add: conversationAspect_fst record_key_point_snd toolConversationId_def
            getConversationState_present aspect_text_def e)
  qed
qed

text \<open>
  C7: for an identity with no entry in the store, each of the four valid reads returns
  its unset text (the two sentinels for goal and summary, the sentence naming the idle
  phase, the sentinel for no key points) and leaves the store with exactly one more
  entry, under that identity, holding goal null, summary null, no key points and phase
  idle. Looking the identity up again returns the same state and the same store, and so
  does reading again. What a tool writes for an identity, in any store, is what a read of
  that identity returns: the goal and the phase after set_conversation_goal, the summary
  and the phase after summarize_conversation, the phase after suggest_next_step, and the
  bulleted key points, the new one last, after record_key_point.
\<close>

theorem first_read_creates_initial_entry:
  assumes "k = determineConversationId p sid"
    and "st k = None"
  shows "fst (conversationAspect u p ''goal'' sid st)
           = Inr [\<lparr>res_uri = u, res_text = ''No conversation goal has been set yet.'',
                   res_mimeType = ''text/plain''\<rparr>]
       \<and> fst (conversationAspect u p ''summary'' sid st)
           = Inr [\<lparr>res_uri = u,
                   res_text = ''No summary is currently available for this conversation.'',
                   res_mimeType = ''text/plain''\<rparr>]
       \<and> fst (conversationAspect u p ''state'' sid st)
           = Inr [\<lparr>res_uri = u,
                   res_text = ''The conversation is currently in the 'idle' phase.'',
                   res_mimeType = ''text/plain''\<rparr>]
       \<and> fst (conversationAspect u p ''keyPoints'' sid st)
           = Inr [\<lparr>res_uri = u, res_text = ''No key points have been recorded yet.'',
                   res_mimeType = ''text/plain''\<rparr>]
       \<and> (\<forall>a \<in> set valid_aspects.
             snd (conversationAspect u p a sid st)
               = st(k \<mapsto> \<lparr>conv_id = k, goal = None, summary = None, keyPoints = [],
                            phase = ''idle''\<rparr>)
             \<and> dom (snd (conversationAspect u p a sid st)) = insert k (dom st)
             \<and> conversationAspect u p a sid (snd (conversationAspect u p a sid st))
                 = conversationAspect u p a sid st)
       \<and> getConversationState k (snd (getConversationState k st)) = getConversationState k st
       \<and> fst (conversationAspect u (PString c) ''goal'' sid
                (snd (set_conversation_goal g (Some c) sid' st)))
           = Inr [\<lparr>res_uri = u, res_text = g, res_mimeType = ''text/plain''\<rparr>]
       \<and> fst (conversationAspect u (PString c) ''state'' sid
                (snd (set_conversation_goal g (Some c) sid' st)))
           = Inr [\<lparr>res_uri = u,
                   res_text = ''The conversation is currently in the 'exploring' phase.'',
                   res_mimeType = ''text/plain''\<rparr>]
       \<and> fst (conversationAspect u (PString c) ''summary'' sid
                (snd (summarize_conversation t (Some c) sid' st)))
           = Inr [\<lparr>res_uri = u,
                   res_text = ''Summary based on text provided: '' @ take 150 t
                                @ (if 150 < length t then ''...'' else []),
                   res_mimeType = ''text/plain''\<rparr>]
       \<and> fst (conversationAspect u (PString c) ''state'' sid
                (snd (summarize_conversation t (Some c) sid' st)))
           = Inr [\<lparr>res_uri = u,
                   res_text = ''The conversation is currently in the 'summarizing' phase.'',
                   res_mimeType = ''text/plain''\<rparr>]
       \<and> fst (conversationAspect u (PString c) ''state'' sid
                (snd (suggest_next_step (Some c) sid' st)))
           = Inr [\<lparr>res_uri = u,
                   res_text = ''The conversation is currently in the '' @ [CHR 0x27]
                      @ phase (snd (suggestion_for (fst (getConversationState (JString c) st))))
                      @ [CHR 0x27] @ '' phase.'',
                   res_mimeType = ''text/plain''\<rparr>]
       \<and> fst (conversationAspect u (PString c) ''keyPoints'' sid
                (snd (record_key_point q (Some c) sid' st)))
           = Inr [\<lparr>res_uri = u,
                   res_text = join [CHR 0x0A] (map (\<lambda>x. ''- '' @ x)
                      (if q \<in> set (keyPoints (fst (getConversationState (JString c) st)))
                       then keyPoints (fst (getConversationState (JString c) st))
                       else keyPoints (fst (getConversationState (JString c) st)) @ [q])),
                   res_mimeType = ''text/plain''\<rparr>]"
proof -
  have f: "fst (getConversationState k st) = initial_state k"
    and s: "snd (getConversationState k st) = st(k \<mapsto> initial_state k)"
    using assms(2) by (simp_all add: getConversationState_absent)
  have texts: "fst (conversationAspect u p ''goal'' sid st)
           = Inr [\<lparr>res_uri = u, res_text = ''No conversation goal has been set yet.'',
                   res_mimeType = ''text/plain''\<rparr>]"
      "fst (conversationAspect u p ''summary'' sid st)
           = Inr [\<lparr>res_uri = u,
                   res_text = ''No summary is currently available for this conversation.'',
                   res_mimeType = ''text/plain''\<rparr>]"
      "fst (conversationAspect u p ''state'' sid st)
           = Inr [\<lparr>res_uri = u,
                   res_text = ''The conversation is currently in the 'idle' phase.'',
                   res_mimeType = ''text/plain''\<rparr>]"
      "fst (conversationAspect u p ''keyPoints'' sid st)
           = Inr [\<lparr>res_uri = u, res_text = ''No key points have been recorded yet.'',
                   res_mimeType = ''text/plain''\<rparr>]"
    unfolding conversationAspect_fst assms(1) [symmetric] f
    by (simp_all only: aspect_text_initial sum.case)
  have again: "conversationAspect u p a sid (snd (conversationAspect u p a sid st))
                 = conversationAspect u p a sid st" for a
    by (simp add: prod_eq_iff conversationAspect_fst conversationAspect_snd
          getConversationState_idem)
  have stores: "\<forall>a \<in> set valid_aspects.
             snd (conversationAspect u p a sid st)
               = st(k \<mapsto> \<lparr>conv_id = k, goal = None, summary = None, keyPoints = [],
                            phase = ''idle''\<rparr>)
             \<and> dom (snd (conversationAspect u p a sid st)) = insert k (dom st)
             \<and> conversationAspect u p a sid (snd (conversationAspect u p a sid st))
                 = conversationAspect u p a sid st"
    using again by (simp add: conversationAspect_snd assms(1) [symmetric] s initial_state_def)
  from texts stores getConversationState_idem [of k st]
    read_goal_after_set_goal [of u c sid g sid' st]
    read_state_after_set_goal [of u c sid g sid' st]
    read_summary_after_summarize [of u c sid t sid' st]
    read_state_after_summarize [of u c sid t sid' st]
    read_state_after_suggest [of u c sid sid' st]
    read_keyPoints_after_record [of u c sid q sid' st]
  show ?thesis
    by blast
qed


theorem first_read_creates_initial_entry_witness:
  "Map.empty (determineConversationId (PString ''conv1'') None) = (None :: ConversationState option)
   \<and> ''state'' \<in> set valid_aspects
   \<and> conversationAspect ''conversation://conv1/state'' (PString ''conv1'') ''state'' None Map.empty
       = (Inr [\<lparr>res_uri = ''conversation://conv1/state'',
                 res_text = ''The conversation is currently in the 'idle' phase.'',
                 res_mimeType = ''text/plain''\<rparr>],
          [JString ''conv1'' \<mapsto> \<lparr>conv_id = JString ''conv1'', goal = None, summary = None,
                keyPoints = [], phase = ''idle''\<rparr>])
   \<and> dom (snd (conversationAspect ''conversation://conv1/state'' (PString ''conv1'') ''state''
               None Map.empty)) = {JString ''conv1''}
   \<and> fst (conversationAspect ''conversation://conv1/state'' (PString ''conv1'') ''summary'' None
          (snd (summarize_conversation ''0123456789'' (Some ''conv1'') None Map.empty)))
       = Inr [\<lparr>res_uri = ''conversation://conv1/state'',
                res_text = ''Summary based on text provided: 0123456789'',
                res_mimeType = ''text/plain''\<rparr>]
   \<and> fst (conversationAspect ''conversation://conv1/state'' (PString ''conv1'') ''state'' None
          (snd (suggest_next_step (Some ''conv1'') None Map.empty)))
       = Inr [\<lparr>res_uri = ''conversation://conv1/state'',
                res_text = ''The conversation is currently in the 'defining_goal' phase.'',
                res_mimeType = ''text/plain''\<rparr>]
   \<and> [JString ''conv1'' \<mapsto> \<lparr>conv_id = JString ''conv1'', goal = None, summary = None,
           keyPoints = [''Visit Paris''], phase = ''idle''\<rparr>]
         (determineConversationId (PString ''conv2'') None) = None
   \<and> fst (conversationAspect ''conversation://conv1/keyPoints'' (PString ''conv1'') ''keyPoints''
          None
          (snd (record_key_point ''Visit Rome'' (Some ''conv1'') None
             [JString ''conv1'' \<mapsto> \<lparr>conv_id = JString ''conv1'', goal = None, summary = None,
                 keyPoints = [''Visit Paris''], phase = ''idle''\<rparr>])))
       = Inr [\<lparr>res_uri = ''conversation://conv1/keyPoints'',
                res_text = ''- Visit Paris'' @ [CHR 0x0A] @ ''- Visit Rome'',
                res_mimeType = ''text/plain''\<rparr>]"
proof -
  let ?st1 = "[JString ''conv1'' \<mapsto> \<lparr>conv_id = JString ''conv1'', goal = None, summary = None,
                 keyPoints = [''Visit Paris''], phase = ''idle''\<rparr>]"
  have h: "Map.empty (determineConversationId (PString ''conv1'') None)
             = (None :: ConversationState option)"
    by simp
  have h1: "?st1 (determineConversationId (PString ''conv2'') None) = None"
    by simp
  have v: "''state'' \<in> set valid_aspects"
    by (simp add: valid_aspects_def)
  have s0: "fst (getConversationState (JString ''conv1'') Map.empty)
              = initial_state (JString ''conv1'')"
    by (simp add: getConversationState_def)
  have s1: "fst (getConversationState (JString ''conv1'') ?st1)
              = \<lparr>conv_id = JString ''conv1'', goal = None, summary = None,
                 keyPoints = [''Visit Paris''], phase = ''idle''\<rparr>"
    by (simp add: getConversationState_def)
  have ph: "phase (snd (suggestion_for (initial_state (JString ''conv1'')))) = ''defining_goal''"
    by (simp add: suggestion_for_phase initial_state_def goal_falsy_def)
  note a = first_read_creates_initial_entry [where p = "PString ''conv1''" and sid = None
      and st = Map.empty and u = "''conversation://conv1/state''"
      and c = "''conv1''" and t = "''0123456789''" and sid' = None, OF refl h]
  note b = first_read_creates_initial_entry [where p = "PString ''conv2''" and sid = None
      and st = ?st1 and u = "''conversation://conv1/keyPoints''"
      and c = "''conv1''" and q = "''Visit Rome''" and sid' = None, OF refl h1]
  from a v h have "conversationAspect ''conversation://conv1/state'' (PString ''conv1'') ''state''
         None Map.empty
       = (Inr [\<lparr>res_uri = ''conversation://conv1/state'',
                 res_text = ''The conversation is currently in the 'idle' phase.'',
                 res_mimeType = ''text/plain''\<rparr>],
          [JString ''conv1'' \<mapsto> \<lparr>conv_id = JString ''conv1'', goal = None, summary = None,
                keyPoints = [], phase = ''idle''\<rparr>])
   \<and> dom (snd (conversationAspect ''conversation://conv1/state'' (PString ''conv1'') ''state''
               None Map.empty)) = {JString ''conv1''}"
    by (simp add: prod_eq_iff)
  moreover from a have "fst (conversationAspect ''conversation://conv1/state'' (PString ''conv1'')
          ''summary'' None
          (snd (summarize_conversation ''0123456789'' (Some ''conv1'') None Map.empty)))
       = Inr [\<lparr>res_uri = ''conversation://conv1/state'',
                res_text = ''Summary based on text provided: 0123456789'',
                res_mimeType = ''text/plain''\<rparr>]"
    by simp
  moreover from a have "fst (conversationAspect ''conversation://conv1/state'' (PString ''conv1'')
          ''state'' None (snd (suggest_next_step (Some ''conv1'') None Map.empty)))
       = Inr [\<lparr>res_uri = ''conversation://conv1/state'',
                res_text = ''The conversation is currently in the 'defining_goal' phase.'',
                res_mimeType = ''text/plain''\<rparr>]"
    unfolding s0 ph by simp
  moreover from b have "fst (conversationAspect ''conversation://conv1/keyPoints''
          (PString ''conv1'') ''keyPoints'' None
          (snd (record_key_point ''Visit Rome'' (Some ''conv1'') None ?st1)))
       = Inr [\<lparr>res_uri = ''conversation://conv1/keyPoints'',
                res_text = ''- Visit Paris'' @ [CHR 0x0A] @ ''- Visit Rome'',
                res_mimeType = ''text/plain''\<rparr>]"
    unfolding s1 by simp
  ultimately show ?thesis
    using h h1 v by simp
qed

section \<open>The phase stays within its four values\<close>

text \<open>
  C8: in every store produced from the empty store by any sequence of tool calls and
  resource reads (rejected ones included), the phase of every stored conversation is one
  of idle, defining_goal, exploring and summarizing.
\<close>

theorem phase_is_one_of_four:
  "run rs Map.empty k = Some s \<Longrightarrow>
   phase s \<in> {''idle'', ''defining_goal'', ''exploring'', ''summarizing''}"
  using reachable_ok [of rs k s] by (simp add: state_ok_def valid_phases_def)

theorem phase_is_one_of_four_witness:
  "run [ReadResource ''conversation://conv1/nothing'' (PString ''conv1'') ''nothing'' None,
        SuggestNextStep (Some ''conv1'') None,
        SetConversationGoal ''Plan a trip'' (Some ''conv1'') None,
        SummarizeConversation ''We talked about trains.'' (Some ''conv1'') None]
       Map.empty (JString ''conv1'')
     = Some \<lparr>conv_id = JString ''conv1'', goal = Some ''Plan a trip'',
              summary = Some ''Summary based on text provided: We talked about trains.'',
              keyPoints = [], phase = ''summarizing''\<rparr>
   \<and> phase \<lparr>conv_id = JString ''conv1'', goal = Some ''Plan a trip'',
              summary = Some ''Summary based on text provided: We talked about trains.'',
              keyPoints = [], phase = ''summarizing''\<rparr>
       \<in> {''idle'', ''defining_goal'', ''exploring'', ''summarizing''}"
proof -
  have r: "run [ReadResource ''conversation://conv1/nothing'' (PString ''conv1'') ''nothing'' None,
        SuggestNextStep (Some ''conv1'') None,
        SetConversationGoal ''Plan a trip'' (Some ''conv1'') None,
        SummarizeConversation ''We talked about trains.'' (Some ''conv1'') None]
       Map.empty (JString ''conv1'')
     = Some \<lparr>conv_id = JString ''conv1'', goal = Some ''Plan a trip'',
              summary = Some ''Summary based on text provided: We talked about trains.'',
              keyPoints = [], phase = ''summarizing''\<rparr>"
    by (simp add: conversationAspect_snd suggest_next_step_snd set_conversation_goal_snd
          summarize_conversation_snd toolConversationId_def getConversationState_def
          initial_state_def suggestion_for_def goal_falsy_def mockSummary_def)
  from phase_is_one_of_four [OF r] r show ?thesis by simp
qed

section \<open>What each operation writes\<close>

text \<open>
  C9: with \<open>s\<close> the state of the resolved conversation as the handler finds it (the
  initial one when the identity is new), set_conversation_goal leaves \<open>s\<close> with only goal
  and phase written, summarize_conversation with only summary and phase,
  record_key_point with only keyPoints, suggest_next_step with only phase; the id field is
  the same after each, and the entry of every other identity is as it was.
\<close>

theorem operations_write_only_their_fields:
  assumes "k = JString (toolConversationId c sid)"
    and "s = fst (getConversationState k st)"
  shows "snd (set_conversation_goal g c sid st) k
           = Some (s\<lparr>goal := Some g, phase := ''exploring''\<rparr>)
       \<and> snd (summarize_conversation t c sid st) k
           = Some (s\<lparr>summary := Some (mockSummary t), phase := ''summarizing''\<rparr>)
       \<and> snd (record_key_point p c sid st) k
           = Some (s\<lparr>keyPoints := (if p \<in> set (keyPoints s) then keyPoints s
                                     else keyPoints s @ [p])\<rparr>)
       \<and> snd (suggest_next_step c sid st) k
           = Some (s\<lparr>phase := phase (snd (suggestion_for s))\<rparr>)
       \<and> (\<exists>s'. snd (set_conversation_goal g c sid st) k = Some s' \<and> conv_id s' = conv_id s
              \<and> summary s' = summary s \<and> keyPoints s' = keyPoints s)
       \<and> (\<exists>s'. snd (summarize_conversation t c sid st) k = Some s' \<and> conv_id s' = conv_id s
              \<and> goal s' = goal s \<and> keyPoints s' = keyPoints s)
       \<and> (\<exists>s'. snd (record_key_point p c sid st) k = Some s' \<and> conv_id s' = conv_id s
              \<and> goal s' = goal s \<and> summary s' = summary s \<and> phase s' = phase s)
       \<and> (\<exists>s'. snd (suggest_next_step c sid st) k = Some s' \<and> conv_id s' = conv_id s
              \<and> goal s' = goal s \<and> summary s' = summary s \<and> keyPoints s' = keyPoints s)
       \<and> (\<forall>k'. k' \<noteq> k \<longrightarrow>
              snd (set_conversation_goal g c sid st) k' = st k'
              \<and> snd (summarize_conversation t c sid st) k' = st k'
              \<and> snd (record_key_point p c sid st) k' = st k'
              \<and> snd (suggest_next_step c sid st) k' = st k')"
proof -
  have sg: "snd (suggestion_for s) = s\<lparr>phase := phase (snd (suggestion_for s))\<rparr>"
    by (simp add: suggestion_for_def Let_def)
  have a: "snd (set_conversation_goal g c sid st) k
           = Some (s\<lparr>goal := Some g, phase := ''exploring''\<rparr>)"
    using assms by (simp add: set_conversation_goal_snd)
  have b: "snd (summarize_conversation t c sid st) k
           = Some (s\<lparr>summary := Some (mockSummary t), phase := ''summarizing''\<rparr>)"
    using assms by (simp add: summarize_conversation_snd)
  have d: "snd (record_key_point p c sid st) k
           = Some (s\<lparr>keyPoints := (if p \<in> set (keyPoints s) then keyPoints s
                                     else keyPoints s @ [p])\<rparr>)"
    using assms by (simp add: record_key_point_snd getConversationState_lookup)
  have e: "snd (suggest_next_step c sid st) k
           = Some (s\<lparr>phase := phase (snd (suggestion_for s))\<rparr>)"
    using assms sg by (simp add: suggest_next_step_snd)
  have o: "snd (set_conversation_goal g c sid st) k' = st k'
           \<and> snd (summarize_conversation t c sid st) k' = st k'
           \<and> snd (record_key_point p c sid st) k' = st k'
           \<and> snd (suggest_next_step c sid st) k' = st k'" if "k' \<noteq> k" for k'
    using that assms(1)
    by (simp add: set_conversation_goal_snd summarize_conversation_snd
          record_key_point_snd suggest_next_step_snd getConversationState_other)
  from a b d e o show ?thesis
    by simp
qed

theorem operations_write_only_their_fields_witness:
  "snd (set_conversation_goal ''Plan a trip'' (Some ''conv1'') None
          [JString ''conv1'' \<mapsto> \<lparr>conv_id = JString ''conv1'', goal = None,
              summary = Some ''Summary based on text provided: 0123456789'',
              keyPoints = [''Visit Paris''], phase = ''summarizing''\<rparr>,
           JString ''conv2'' \<mapsto> initial_state (JString ''conv2'')]) (JString ''conv1'')
     = Some \<lparr>conv_id = JString ''conv1'', goal = Some ''Plan a trip'',
              summary = Some ''Summary based on text provided: 0123456789'',
              keyPoints = [''Visit Paris''], phase = ''exploring''\<rparr>
   \<and> JString ''conv2'' \<noteq> JString ''conv1''
   \<and> snd (set_conversation_goal ''Plan a trip'' (Some ''conv1'') None
          [JString ''conv1'' \<mapsto> \<lparr>conv_id = JString ''conv1'', goal = None,
              summary = Some ''Summary based on text provided: 0123456789'',
              keyPoints = [''Visit Paris''], phase = ''summarizing''\<rparr>,
           JString ''conv2'' \<mapsto> initial_state (JString ''conv2'')]) (JString ''conv2'')
     = Some (initial_state (JString ''conv2''))"
proof -
  let ?st = "[JString ''conv1'' \<mapsto> \<lparr>conv_id = JString ''conv1'', goal = None,
              summary = Some ''Summary based on text provided: 0123456789'',
              keyPoints = [''Visit Paris''], phase = ''summarizing''\<rparr>,
           JString ''conv2'' \<mapsto> initial_state (JString ''conv2'')]"
  have k: "JString ''conv1'' = JString (toolConversationId (Some ''conv1'') None)"
    by (simp add: toolConversationId_def)
  have n: "JString ''conv2'' \<noteq> JString ''conv1''"
    by simp
  have s: "fst (getConversationState (JString ''conv1'') ?st)
             = \<lparr>conv_id = JString ''conv1'', goal = None,
              summary = Some ''Summary based on text provided: 0123456789'',
              keyPoints = [''Visit Paris''], phase = ''summarizing''\<rparr>"
    by (simp add: getConversationState_def)
  from operations_write_only_their_fields [OF k refl, where st = ?st and g = "''Plan a trip''"] n
  show ?thesis
    unfolding s by simp
qed

end
